theory Spec2Isabelle
  imports Main
begin

section \<open>JavaScript values as the script observes them\<close>

text \<open>
  The action is a JavaScript module with three handlers, \<open>invoke\<close>, \<open>error\<close> and
  \<open>halt\<close>, and one helper, \<open>enableAccount\<close>. The repository holds it in three variants:
  \<open>src/script.mjs\<close> once with a base address and the helpers of \<open>@sgnl-actions/utils\<close>
  (lines 1 to 180), once with a tenant domain and a handler \<open>error\<close> that retries (lines
  181 to 408), and the bundle \<open>dist/index.js\<close> of the first.

  Parameters, response bodies and results are plain JavaScript values. Strings are
  sequences of UTF-8 bytes; numbers are the integers whose decimal rendering JavaScript
  prints without an exponent; an object is the list of its own properties in insertion
  order (the first binding of a key is the one a lookup finds). A handler is a function
  of its parameters, its context, the time \<open>now\<close> that \<open>new Date().toISOString()\<close>
  gives where the handler reads the clock, the network, and the record of the effects
  made so far; it returns a value or an exception together with the record of effects
  extended by its own. The effects recorded are the requests and the waits; what the
  handlers write to the console is not.
\<close>

datatype jsval =
    JUndefined
  | JNull
  | JBool bool
  | JNum int
  | JStr string
  | JArr "jsval list"
  | JObj "(string \<times> jsval) list"

type_synonym obj = "(string \<times> jsval) list"

text \<open>
  A value that travels as an exception: either a value thrown or rejected with
  (\<open>throw x\<close>, a rejected promise), or the \<open>TypeError\<close> the runtime raises when a
  property of \<open>undefined\<close> or \<open>null\<close> is read or a missing method is called.
\<close>

datatype exn = Thrown jsval | TypeError

definition and_then :: "exn + 'a \<Rightarrow> ('a \<Rightarrow> exn + 'b) \<Rightarrow> exn + 'b" where
  "and_then x f = (case x of Inl e \<Rightarrow> Inl e | Inr v \<Rightarrow> f v)"

text \<open>Truthiness, as tested by \<open>if (x)\<close>, \<open>!x\<close> and \<open>x || y\<close>.\<close>

fun truthy :: "jsval \<Rightarrow> bool" where
  "truthy JUndefined = False"
| "truthy JNull = False"
| "truthy (JBool b) = b"
| "truthy (JNum n) = (n \<noteq> 0)"
| "truthy (JStr s) = (s \<noteq> [])"
| "truthy (JArr xs) = True"
| "truthy (JObj fs) = True"

definition js_or :: "jsval \<Rightarrow> jsval \<Rightarrow> jsval" where
  "js_or a b = (if truthy a then a else b)"

text \<open>Decimal rendering of a number, as a template literal prints it.\<close>

definition digit :: "nat \<Rightarrow> char" where
  "digit d = ''0123456789'' ! d"

fun decimal :: "nat \<Rightarrow> string" where
  "decimal n = (if n < 10 then [digit n] else decimal (n div 10) @ [digit (n mod 10)])"

declare decimal.simps [simp del]

definition show_int :: "int \<Rightarrow> string" where
  "show_int i = (if i < 0 then CHR ''-'' # decimal (nat (- i)) else decimal (nat i))"

fun join_comma :: "string list \<Rightarrow> string" where
  "join_comma [] = []"
| "join_comma [s] = s"
| "join_comma (s # t # ts) = s @ CHR '','' # join_comma (t # ts)"

text \<open>
  \<open>String(x)\<close>, the conversion a template literal \<open>`${x}`\<close> applies. An array joins
  its elements with commas, \<open>null\<close> and \<open>undefined\<close> elements printing as nothing; a
  plain object prints as \<open>[object Object]\<close>.
\<close>

fun js_toString :: "jsval \<Rightarrow> string" where
  "js_toString JUndefined = ''undefined''"
| "js_toString JNull = ''null''"
| "js_toString (JBool b) = (if b then ''true'' else ''false'')"
| "js_toString (JNum n) = show_int n"
| "js_toString (JStr s) = s"
| "js_toString (JArr xs) =
     join_comma (map (\<lambda>v. if v = JUndefined \<or> v = JNull then [] else js_toString v) xs)"
| "js_toString (JObj fs) = ''[object Object]''"

text \<open>
  Reading a property of an object of parameters (\<open>const { k } = params\<close>, \<open>params.k\<close>):
  a missing key reads as \<open>undefined\<close>.
\<close>

definition field :: "obj \<Rightarrow> string \<Rightarrow> jsval" where
  "field fs k = (case map_of fs k of None \<Rightarrow> JUndefined | Some v \<Rightarrow> v)"

text \<open>
  Member access \<open>v.k\<close> on an arbitrary value, for the keys the script reads
  (\<open>id\<close>, \<open>taskId\<close>, \<open>message\<close>, \<open>detailCode\<close>, \<open>trackingId\<close>, \<open>statusCode\<close>,
  \<open>environment\<close>, \<open>secrets\<close> and the names of settings): \<open>undefined\<close> and \<open>null\<close>
  raise, an object yields the property, and no other value has such a property.
\<close>

fun get_prop :: "jsval \<Rightarrow> string \<Rightarrow> exn + jsval" where
  "get_prop JUndefined k = Inl TypeError"
| "get_prop JNull k = Inl TypeError"
| "get_prop (JObj fs) k = Inr (field fs k)"
| "get_prop v k = Inr JUndefined"

text \<open>Optional chaining \<open>v?.k\<close>.\<close>

fun get_prop_opt :: "jsval \<Rightarrow> string \<Rightarrow> jsval" where
  "get_prop_opt (JObj fs) k = field fs k"
| "get_prop_opt v k = JUndefined"

section \<open>String functions of the platform\<close>

definition startsWith :: "string \<Rightarrow> string \<Rightarrow> bool" where
  "startsWith s p = (take (length p) s = p)"

text \<open>\<open>s.includes(sub)\<close>: \<open>sub\<close> occurs in \<open>s\<close> as a contiguous, case-sensitive run.\<close>

fun str_includes :: "string \<Rightarrow> string \<Rightarrow> bool" where
  "str_includes [] sub = (sub = [])"
| "str_includes (c # cs) sub = (startsWith (c # cs) sub \<or> str_includes cs sub)"

text \<open>
  \<open>x.includes(sub)\<close> on an arbitrary value: a string searches for the substring, an
  array for an element equal to the string, and any other value has no such method.
\<close>

fun js_includes :: "jsval \<Rightarrow> string \<Rightarrow> exn + bool" where
  "js_includes (JStr s) sub = Inr (str_includes s sub)"
| "js_includes (JArr xs) sub = Inr (JStr sub \<in> set xs)"
| "js_includes v sub = Inl TypeError"

text \<open>
  \<open>encodeURIComponent\<close>: every byte of the UTF-8 form is replaced by \<open>%XX\<close> (upper-case
  hexadecimal) unless it is a letter, a digit or one of \<open>- _ . ! ~ * ' ( )\<close>.
\<close>

definition uriUnescaped :: "char list" where
  "uriUnescaped =
     ''ABCDEFGHIJKLMNOPQRSTUVWXYZabcdefghijklmnopqrstuvwxyz0123456789-_.!~*()'' @ [CHR 0x27]"

definition hexDigits :: "char list" where
  "hexDigits = ''0123456789ABCDEF''"

definition hexDigit :: "nat \<Rightarrow> char" where
  "hexDigit d = hexDigits ! d"

definition percentEncode :: "char \<Rightarrow> string" where
  "percentEncode c =
     [CHR ''%'', hexDigit ((of_char c :: nat) div 16), hexDigit ((of_char c :: nat) mod 16)]"

definition encodeURIComponent :: "string \<Rightarrow> string" where
  "encodeURIComponent s =
     concat (map (\<lambda>c. if c \<in> set uriUnescaped then [c] else percentEncode c) s)"

text \<open>
  A JavaScript number that \<open>parseInt\<close> gives: \<open>NaN\<close>, or the double for an integer
  \<open>n\<close>. Up to \<open>2^53\<close> in magnitude every integer is a double, and \<open>Exact n\<close> is that
  number; beyond, \<open>Rounded n\<close> is the double the implementation takes for \<open>n\<close>, the
  nearest one (for more than twenty digits, one near it). The sign of zero is not
  kept.
\<close>

datatype number = NaN | Exact int | Rounded int

text \<open>
  \<open>parseInt(s, 10)\<close>: leading white space is skipped, an optional sign is read, and the
  longest run of decimal digits that follows is the value; without a digit the result
  is \<open>NaN\<close>. White space is every character of \<open>WhiteSpace\<close> and \<open>LineTerminator\<close>,
  here in UTF-8: tab, line feed, vertical tab, form feed, carriage return, space,
  U+00A0, U+1680, U+2000 to U+200A, U+2028, U+2029, U+202F, U+205F, U+3000 and U+FEFF.
\<close>

definition whiteSpace :: "string list" where
  "whiteSpace =
     [[CHR 0x09], [CHR 0x0A], [CHR 0x0B], [CHR 0x0C], [CHR 0x0D], [CHR 0x20],
      [CHR 0xC2, CHR 0xA0], [CHR 0xE1, CHR 0x9A, CHR 0x80],
      [CHR 0xE2, CHR 0x80, CHR 0x80], [CHR 0xE2, CHR 0x80, CHR 0x81],
      [CHR 0xE2, CHR 0x80, CHR 0x82], [CHR 0xE2, CHR 0x80, CHR 0x83],
      [CHR 0xE2, CHR 0x80, CHR 0x84], [CHR 0xE2, CHR 0x80, CHR 0x85],
      [CHR 0xE2, CHR 0x80, CHR 0x86], [CHR 0xE2, CHR 0x80, CHR 0x87],
      [CHR 0xE2, CHR 0x80, CHR 0x88], [CHR 0xE2, CHR 0x80, CHR 0x89],
      [CHR 0xE2, CHR 0x80, CHR 0x8A], [CHR 0xE2, CHR 0x80, CHR 0xA8],
      [CHR 0xE2, CHR 0x80, CHR 0xA9], [CHR 0xE2, CHR 0x80, CHR 0xAF],
      [CHR 0xE2, CHR 0x81, CHR 0x9F], [CHR 0xE3, CHR 0x80, CHR 0x80],
      [CHR 0xEF, CHR 0xBB, CHR 0xBF]]"

definition leadingWhiteSpace :: "string \<Rightarrow> nat" where
  "leadingWhiteSpace s =
     (case List.find (startsWith s) whiteSpace of None \<Rightarrow> 0 | Some w \<Rightarrow> length w)"

function trimStart :: "string \<Rightarrow> string" where
  "trimStart s =
     (if leadingWhiteSpace s = 0 then s else trimStart (drop (leadingWhiteSpace s) s))"
  by pat_completeness auto
termination
proof (relation "measure length")
  show "wf (measure length)" by simp
next
  fix s :: string
  assume nz: "leadingWhiteSpace s \<noteq> 0"
  then obtain w where w: "List.find (startsWith s) whiteSpace = Some w"
    by (cases "List.find (startsWith s) whiteSpace") (simp_all add: leadingWhiteSpace_def)
  then have "startsWith s w"
    by (auto simp: find_Some_iff)
  then have "take (length w) s = w"
    by (simp add: startsWith_def)
  then have "length (take (length w) s) = length w"
    by simp
  then have "length w \<le> length s"
    by simp
  with w have "leadingWhiteSpace s \<le> length s"
    by (simp add: leadingWhiteSpace_def)
  with nz show "(drop (leadingWhiteSpace s) s, s) \<in> measure length"
    by simp
qed

declare trimStart.simps [simp del]

definition isDigit :: "char \<Rightarrow> bool" where
  "isDigit c = (c \<in> set ''0123456789'')"

definition digitValue :: "char \<Rightarrow> int" where
  "digitValue c = int (of_char c) - 48"

definition parseInt :: "string \<Rightarrow> number" where
  "parseInt str =
     (let s = trimStart str;
          negative = (s \<noteq> [] \<and> hd s = CHR ''-'');
          rest = (if s \<noteq> [] \<and> (hd s = CHR ''-'' \<or> hd s = CHR ''+'') then tl s else s);
          ds = takeWhile isDigit rest;
          n = foldl (\<lambda>a c. 10 * a + digitValue c) 0 ds
      in if ds = [] then NaN
         else if n \<le> 9007199254740992 then Exact (if negative then - n else n)
         else Rounded (if negative then - n else n))"

text \<open>
  \<open>new URL(ref, base).toString()\<close> for a reference \<open>ref\<close> that starts with a single
  \<open>/\<close> and otherwise holds only characters the URL parser copies unchanged: the
  result is the scheme and authority of the base followed by the path of \<open>ref\<close>, from
  which the parser removes every dot segment, a double-dot segment taking the segment
  before it along. How the base string is parsed into its scheme and authority (or
  rejected with an exception) is left to the parameter \<open>origin_of\<close> of the functions
  below.
\<close>

fun split_slash :: "string \<Rightarrow> string list" where
  "split_slash [] = [[]]"
| "split_slash (c # cs) =
     (if c = CHR ''/'' then [] # split_slash cs
      else (case split_slash cs of [] \<Rightarrow> [[c]] | s # ss \<Rightarrow> (c # s) # ss))"

definition single_dot :: "string \<Rightarrow> bool" where
  "single_dot s = (s \<in> set [''.'', ''%2e'', ''%2E''])"

definition double_dot :: "string \<Rightarrow> bool" where
  "double_dot s =
     (s \<in> set [''..'', ''.%2e'', ''.%2E'', ''%2e.'', ''%2E.'',
               ''%2e%2e'', ''%2e%2E'', ''%2E%2e'', ''%2E%2E''])"

fun url_path :: "string list \<Rightarrow> string list \<Rightarrow> string list" where
  "url_path path [] = path"
| "url_path path (s # rest) =
     (if double_dot s then url_path (if rest = [] then butlast path @ [[]] else butlast path) rest
      else if single_dot s then url_path (if rest = [] then path @ [[]] else path) rest
      else url_path (path @ [s]) rest)"

definition URL_pathname :: "string \<Rightarrow> string" where
  "URL_pathname ref = concat (map (\<lambda>s. CHR ''/'' # s) (url_path [] (split_slash (tl ref))))"

section \<open>Network and timer\<close>

text \<open>
  A request is what \<open>fetch\<close> is called with; its body is the object handed to
  \<open>JSON.stringify\<close>, which writes one member for every key whose value is not
  \<open>undefined\<close>. A response is what the script reads of it: the \<open>ok\<close> flag, the status,
  what the call \<open>json()\<close> gives, and what the call \<open>text()\<close> gives where the script makes
  it, which is after it has called \<open>json()\<close>; each is either a value or an exception. The
  body of a \<open>Response\<close> of \<open>fetch\<close> can be read once: \<open>json()\<close> reads it, and the
  \<open>text()\<close> that follows is rejected with a \<open>TypeError\<close>. An object that stands in for
  a response, as in the tests of the repository, may answer both calls.
\<close>

record request =
  url :: string
  httpMethod :: string
  headers :: "(string \<times> string) list"
  body :: jsval

record response =
  ok :: bool
  status :: int
  json_result :: "exn + jsval"
  text_result :: "exn + string"

text \<open>
  The effects of a handler are the requests it sends and the waits it makes, recorded
  in order: \<open>Fetch req\<close> is a call of \<open>fetch\<close>, \<open>Timeout ms\<close> a call of \<open>setTimeout\<close> with
  the delay \<open>ms\<close> that the handler awaits. The network is a function from the number of
  earlier requests to what \<open>fetch\<close> resolves or rejects with.
\<close>

datatype event = Fetch request | Timeout number

type_synonym network = "nat \<Rightarrow> exn + response"

fun is_Fetch :: "event \<Rightarrow> bool" where
  "is_Fetch (Fetch r) = True"
| "is_Fetch (Timeout t) = False"

definition fetches :: "event list \<Rightarrow> nat" where
  "fetches tr = length (filter is_Fetch tr)"

definition fetch :: "network \<Rightarrow> request \<Rightarrow> event list \<Rightarrow> (exn + response) \<times> event list" where
  "fetch net req tr = (net (fetches tr), tr @ [Fetch req])"

text \<open>\<open>new Error(m)\<close>, and the same with a \<open>statusCode\<close> property assigned afterwards.\<close>

definition js_Error :: "string \<Rightarrow> jsval" where
  "js_Error m = JObj [(''message'', JStr m)]"

definition js_Error_status :: "string \<Rightarrow> int \<Rightarrow> jsval" where
  "js_Error_status m s = JObj [(''message'', JStr m), (''statusCode'', JNum s)]"

section \<open>The helper \<open>enableAccount\<close>\<close>

text \<open>
  The body is built by conditional inclusion: \<open>externalVerificationId\<close> when it is
  truthy, \<open>forceProvisioning\<close> when it is neither \<open>undefined\<close> nor \<open>null\<close>.
\<close>

definition requestBody :: "jsval \<Rightarrow> jsval \<Rightarrow> obj" where
  "requestBody externalVerificationId forceProvisioning =
     (if truthy externalVerificationId
      then [(''externalVerificationId'', externalVerificationId)] else []) @
     (if forceProvisioning \<noteq> JUndefined \<and> forceProvisioning \<noteq> JNull
      then [(''forceProvisioning'', forceProvisioning)] else [])"

text \<open>\<open>authToken.startsWith('Bearer ') ? authToken : `Bearer ${authToken}`\<close>\<close>

definition bearer :: "string \<Rightarrow> string" where
  "bearer authToken = (if startsWith authToken ''Bearer '' then authToken else ''Bearer '' @ authToken)"

fun authHeader :: "jsval \<Rightarrow> exn + string" where
  "authHeader (JStr authToken) = Inr (bearer authToken)"
| "authHeader v = Inl TypeError"

definition enableHeaders :: "string \<Rightarrow> (string \<times> string) list" where
  "enableHeaders h =
     [(''Authorization'', h), (''Accept'', ''application/json''),
      (''Content-Type'', ''application/json'')]"

text \<open>
  The variant that takes a base address (\<open>src/script.mjs\<close> lines 14 to 44, and the
  bundle \<open>dist/index.js\<close>): the address and the path are concatenated.
\<close>

definition enableRequest_utils ::
  "jsval \<Rightarrow> jsval \<Rightarrow> jsval \<Rightarrow> jsval \<Rightarrow> jsval \<Rightarrow> exn + request" where
  "enableRequest_utils accountId baseUrl authToken externalVerificationId forceProvisioning =
     (let encodedAccountId = encodeURIComponent (js_toString accountId);
          u = js_toString baseUrl @ ''/v3/accounts/'' @ encodedAccountId @ ''/enable'';
          b = requestBody externalVerificationId forceProvisioning
      in and_then (authHeader authToken) (\<lambda>h.
           Inr \<lparr>url = u, httpMethod = ''POST'', headers = enableHeaders h, body = JObj b\<rparr>))"

definition enableAccount_utils ::
  "jsval \<Rightarrow> jsval \<Rightarrow> jsval \<Rightarrow> jsval \<Rightarrow> jsval \<Rightarrow> network \<Rightarrow> event list
     \<Rightarrow> (exn + response) \<times> event list" where
  "enableAccount_utils accountId baseUrl authToken externalVerificationId forceProvisioning net tr =
     (case enableRequest_utils accountId baseUrl authToken externalVerificationId forceProvisioning of
        Inl e \<Rightarrow> (Inl e, tr)
      | Inr req \<Rightarrow> fetch net req tr)"

text \<open>
  The variant that takes a tenant domain (\<open>src/script.mjs\<close> lines 191 to 221): the URL
  is built by \<open>new URL(`/v3/accounts/${encodedAccountId}/enable`, `https://${sailpointDomain}`)\<close>.
\<close>

definition enableRequest_domain ::
  "(string \<Rightarrow> exn + string) \<Rightarrow> jsval \<Rightarrow> jsval \<Rightarrow> jsval \<Rightarrow> jsval \<Rightarrow> jsval \<Rightarrow> exn + request" where
  "enableRequest_domain origin_of accountId sailpointDomain authToken externalVerificationId
       forceProvisioning =
     (let encodedAccountId = encodeURIComponent (js_toString accountId);
          b = requestBody externalVerificationId forceProvisioning
      in and_then (origin_of (''https://'' @ js_toString sailpointDomain)) (\<lambda>origin.
         and_then (authHeader authToken) (\<lambda>h.
           Inr \<lparr>url = origin @ URL_pathname (''/v3/accounts/'' @ encodedAccountId @ ''/enable''),
                httpMethod = ''POST'', headers = enableHeaders h, body = JObj b\<rparr>)))"

definition enableAccount_domain ::
  "(string \<Rightarrow> exn + string) \<Rightarrow> jsval \<Rightarrow> jsval \<Rightarrow> jsval \<Rightarrow> jsval \<Rightarrow> jsval \<Rightarrow> network
     \<Rightarrow> event list \<Rightarrow> (exn + response) \<times> event list" where
  "enableAccount_domain origin_of accountId sailpointDomain authToken externalVerificationId
       forceProvisioning net tr =
     (case enableRequest_domain origin_of accountId sailpointDomain authToken
             externalVerificationId forceProvisioning of
        Inl e \<Rightarrow> (Inl e, tr)
      | Inr req \<Rightarrow> fetch net req tr)"

section \<open>The handler \<open>invoke\<close>\<close>

text \<open>
  The object returned when the platform accepts the request: \<open>taskId\<close> is
  \<open>responseData.id || responseData.taskId\<close>, \<open>message\<close> is
  \<open>responseData.message || defaultMessage\<close>, \<open>enabledAt\<close> is the time \<open>now\<close> read from the
  clock, and \<open>extra\<close> is the property that follows \<open>enabledAt\<close> (the address in
  one variant, the recovery method after a retry).
\<close>

definition enabledResult :: "jsval \<Rightarrow> jsval \<Rightarrow> string \<Rightarrow> string \<Rightarrow> obj \<Rightarrow> exn + jsval" where
  "enabledResult accountId responseData defaultMessage now extra =
     and_then (get_prop responseData ''id'') (\<lambda>rid.
     and_then (if truthy rid then Inr rid else get_prop responseData ''taskId'') (\<lambda>taskId.
     and_then (get_prop responseData ''message'') (\<lambda>m.
       Inr (JObj ([(''accountId'', accountId), (''enabled'', JBool True), (''taskId'', taskId),
                   (''message'', js_or m (JStr defaultMessage)),
                   (''enabledAt'', JStr now)] @ extra)))))"

text \<open>
  The \<open>try\<close> block that reads the body of an unsuccessful response: \<open>Inr\<close> is the
  message it leaves in \<open>errorMessage\<close>, \<open>Inl\<close> an exception inside the block.
\<close>

definition errorMessage_json :: "response \<Rightarrow> exn + string" where
  "errorMessage_json r =
     and_then (json_result r) (\<lambda>errorBody.
     and_then (get_prop errorBody ''detailCode'') (\<lambda>detailCode.
       if truthy detailCode then
         and_then (get_prop errorBody ''trackingId'') (\<lambda>trackingId.
           Inr (''Failed to enable account: '' @ js_toString detailCode @ '' - '' @
                js_toString (js_or trackingId (JStr []))))
       else
         and_then (get_prop errorBody ''message'') (\<lambda>m.
           if truthy m then Inr (''Failed to enable account: '' @ js_toString m)
           else Inr (''Failed to enable account: HTTP '' @ show_int (status r)))))"

text \<open>
  What \<open>invoke\<close> does with the response (\<open>src/script.mjs\<close> lines 105 to 144 and 264 to
  302, \<open>dist/index.js\<close> lines 254 to 293). The \<open>catch\<close> block reads the body as text; an
  exception of \<open>text()\<close> leaves the handler as it is.
\<close>

definition invoke_response :: "jsval \<Rightarrow> obj \<Rightarrow> string \<Rightarrow> response \<Rightarrow> exn + jsval" where
  "invoke_response accountId extra now r =
     (if ok r then
        and_then (json_result r) (\<lambda>responseData.
          enabledResult accountId responseData ''Account enable operation initiated'' now extra)
      else
        (case errorMessage_json r of
           Inr errorMessage \<Rightarrow> Inl (Thrown (js_Error_status errorMessage (status r)))
         | Inl e \<Rightarrow>
            (case text_result r of
               Inl e' \<Rightarrow> Inl e'
             | Inr errorText \<Rightarrow>
                 Inl (Thrown (js_Error_status
                   (if errorText \<noteq> [] then ''Failed to enable account: '' @ errorText
                    else ''Failed to enable account: HTTP '' @ show_int (status r))
                   (status r))))))"

fun is_string :: "jsval \<Rightarrow> bool" where
  "is_string (JStr s) = True"
| "is_string v = False"

text \<open>\<open>invoke\<close> of the variant that takes a tenant domain (\<open>src/script.mjs\<close> lines 236 to 303).\<close>

definition invoke_domain ::
  "(string \<Rightarrow> exn + string) \<Rightarrow> obj \<Rightarrow> obj \<Rightarrow> string \<Rightarrow> network \<Rightarrow> event list
     \<Rightarrow> (exn + jsval) \<times> event list" where
  "invoke_domain origin_of params context now net tr =
     (let accountId = field params ''accountId'';
          sailpointDomain = field params ''sailpointDomain'';
          externalVerificationId = field params ''externalVerificationId'';
          forceProvisioning = field params ''forceProvisioning'';
          token = get_prop_opt (field context ''secrets'') ''BEARER_AUTH_TOKEN''
      in if \<not> truthy accountId \<or> \<not> is_string accountId
         then (Inl (Thrown (js_Error ''Invalid or missing accountId parameter'')), tr)
         else if \<not> truthy sailpointDomain \<or> \<not> is_string sailpointDomain
         then (Inl (Thrown (js_Error ''Invalid or missing sailpointDomain parameter'')), tr)
         else if \<not> truthy token
         then (Inl (Thrown (js_Error ''Missing required secret: BEARER_AUTH_TOKEN'')), tr)
         else (case enableAccount_domain origin_of accountId sailpointDomain token
                      externalVerificationId forceProvisioning net tr of
                 (Inl e, tr') \<Rightarrow> (Inl e, tr')
               | (Inr r, tr') \<Rightarrow> (invoke_response accountId [] now r, tr')))"

text \<open>
  \<open>getBaseURL\<close>, as bundled in \<open>dist/index.js\<close> lines 148 to 158. The environment it reads
  is truthy, so reading its \<open>ADDRESS\<close> cannot raise.
\<close>

definition endsWith :: "string \<Rightarrow> string \<Rightarrow> bool" where
  "endsWith s p = (length p \<le> length s \<and> drop (length s - length p) s = p)"

definition getBaseURL :: "obj \<Rightarrow> obj \<Rightarrow> exn + jsval" where
  "getBaseURL params context =
     (let env = js_or (field context ''environment'') (JObj []);
          address = js_or (field params ''address'') (get_prop_opt env ''ADDRESS'')
      in if \<not> truthy address
         then Inl (Thrown (js_Error
                ''No URL specified. Provide address parameter or ADDRESS environment variable''))
         else (case address of
                 JStr a \<Rightarrow> Inr (JStr (if endsWith a ''/'' then butlast a else a))
               | _ \<Rightarrow> Inl TypeError))"

text \<open>
  \<open>invoke\<close> of the variant that takes a base address (\<open>src/script.mjs\<close> lines 76 to
  145). The two imported helpers whose code is not part of the action are parameters:
  \<open>resolveJSONPathTemplates\<close> gives the resolved parameters (the bundle
  \<open>dist/index.js\<close> skips this step, which is the identity there), and
  \<open>getAuthorizationHeader\<close> gives the credential, possibly after requests of its own.
\<close>

definition invoke_utils ::
  "(obj \<Rightarrow> jsval \<Rightarrow> obj) \<Rightarrow> (obj \<Rightarrow> event list \<Rightarrow> (exn + jsval) \<times> event list)
     \<Rightarrow> obj \<Rightarrow> obj \<Rightarrow> string \<Rightarrow> network \<Rightarrow> event list \<Rightarrow> (exn + jsval) \<times> event list" where
  "invoke_utils resolveJSONPathTemplates getAuthorizationHeader params context now net tr =
     (let jobContext = js_or (field context ''data'') (JObj []);
          resolvedParams = resolveJSONPathTemplates params jobContext;
          accountId = field resolvedParams ''accountId'';
          externalVerificationId = field resolvedParams ''externalVerificationId'';
          forceProvisioning = field resolvedParams ''forceProvisioning''
      in case getBaseURL resolvedParams context of
           Inl e \<Rightarrow> (Inl e, tr)
         | Inr baseUrl \<Rightarrow>
            (case getAuthorizationHeader context tr of
               (Inl e, tr1) \<Rightarrow> (Inl e, tr1)
             | (Inr h, tr1) \<Rightarrow>
                (case enableAccount_utils accountId baseUrl h externalVerificationId
                        forceProvisioning net tr1 of
                   (Inl e, tr2) \<Rightarrow> (Inl e, tr2)
                 | (Inr r, tr2) \<Rightarrow>
                     (invoke_response accountId [(''address'', baseUrl)] now r, tr2))))"

section \<open>The handler \<open>error\<close>\<close>

text \<open>
  In the variant that takes a base address and in the bundle the handler throws the
  error it was given (\<open>src/script.mjs\<close> lines 153 to 158, \<open>dist/index.js\<close> lines 302 to 307).
\<close>

definition error_utils ::
  "obj \<Rightarrow> obj \<Rightarrow> network \<Rightarrow> event list \<Rightarrow> (exn + jsval) \<times> event list" where
  "error_utils params context net tr = (Inl (Thrown (field params ''error'')), tr)"

text \<open>
  In the variant that takes a tenant domain the handler retries (\<open>src/script.mjs\<close>
  lines 311 to 386). The two conditions it tests:
\<close>

definition rate_limited :: "jsval \<Rightarrow> jsval \<Rightarrow> exn + bool" where
  "rate_limited statusCode message =
     (if statusCode = JNum 429 then Inr True
      else and_then (js_includes message ''429'') (\<lambda>found.
             if found then Inr True else js_includes message ''rate limit''))"

definition service_unavailable :: "jsval \<Rightarrow> bool" where
  "service_unavailable statusCode = (statusCode \<in> set [JNum 502, JNum 503, JNum 504])"

text \<open>
  One retry block (lines 323 to 349, and 354 to 380): wait, call \<open>enableAccount\<close>
  again, and return the result when the response is \<open>ok\<close>. \<open>Inr None\<close> says that the
  block was left without a \<open>return\<close>, so that the handler goes on below it.
\<close>

definition retry ::
  "(string \<Rightarrow> exn + string) \<Rightarrow> obj \<Rightarrow> obj \<Rightarrow> number \<Rightarrow> string \<Rightarrow> string \<Rightarrow> string
     \<Rightarrow> network \<Rightarrow> event list \<Rightarrow> (exn + jsval option) \<times> event list" where
  "retry origin_of params context backoffMs defaultMessage recoveryMethod now net tr =
     (let accountId = field params ''accountId'';
          tr1 = tr @ [Timeout backoffMs]
      in case get_prop (field context ''secrets'') ''BEARER_AUTH_TOKEN'' of
           Inl e \<Rightarrow> (Inl e, tr1)
         | Inr token \<Rightarrow>
            (case enableAccount_domain origin_of accountId (field params ''sailpointDomain'')
                    token (field params ''externalVerificationId'')
                    (field params ''forceProvisioning'') net tr1 of
               (Inl e, tr2) \<Rightarrow> (Inl e, tr2)
             | (Inr retryResponse, tr2) \<Rightarrow>
                 if ok retryResponse then
                   (map_sum id Some
                      (and_then (json_result retryResponse) (\<lambda>responseData.
                         enabledResult accountId responseData defaultMessage now
                           [(''recoveryMethod'', JStr recoveryMethod)])), tr2)
                 else (Inr None, tr2)))"

definition backoff :: "obj \<Rightarrow> string \<Rightarrow> string \<Rightarrow> number" where
  "backoff context name dflt =
     parseInt (js_toString
       (js_or (get_prop_opt (field context ''environment'') name) (JStr dflt)))"

definition unrecoverable :: "jsval \<Rightarrow> jsval \<Rightarrow> jsval" where
  "unrecoverable accountId message =
     js_Error (''Unrecoverable error enabling account '' @ js_toString accountId @ '': '' @
               js_toString message)"

definition error_domain ::
  "(string \<Rightarrow> exn + string) \<Rightarrow> obj \<Rightarrow> obj \<Rightarrow> string \<Rightarrow> network \<Rightarrow> event list
     \<Rightarrow> (exn + jsval) \<times> event list" where
  "error_domain origin_of params context now net tr =
     (let err = field params ''error'';
          accountId = field params ''accountId''
      in case get_prop err ''statusCode'' of
           Inl e \<Rightarrow> (Inl e, tr)
         | Inr statusCode \<Rightarrow>
            (let message = get_prop_opt err ''message'';
                 rateLimitBackoffMs = backoff context ''RATE_LIMIT_BACKOFF_MS'' ''30000'';
                 serviceErrorBackoffMs = backoff context ''SERVICE_ERROR_BACKOFF_MS'' ''10000''
             in case rate_limited statusCode message of
                  Inl e \<Rightarrow> (Inl e, tr)
                | Inr limited \<Rightarrow>
                   (case (if limited
                          then retry origin_of params context rateLimitBackoffMs
                                 ''Account enable operation initiated after retry''
                                 ''rate_limit_retry'' now net tr
                          else (Inr None, tr)) of
                      (Inl e, tr1) \<Rightarrow> (Inl e, tr1)
                    | (Inr (Some result), tr1) \<Rightarrow> (Inr result, tr1)
                    | (Inr None, tr1) \<Rightarrow>
                       (case (if service_unavailable statusCode
                              then retry origin_of params context serviceErrorBackoffMs
                                     ''Account enable operation initiated after service recovery''
                                     ''service_retry'' now net tr1
                              else (Inr None, tr1)) of
                          (Inl e, tr2) \<Rightarrow> (Inl e, tr2)
                        | (Inr (Some result), tr2) \<Rightarrow> (Inr result, tr2)
                        | (Inr None, tr2) \<Rightarrow>
                            (Inl (Thrown (unrecoverable accountId message)), tr2)))))"

section \<open>The handler \<open>halt\<close>\<close>

text \<open>
  The same in every variant (\<open>src/script.mjs\<close> lines 166 to 179 and 394 to 407,
  \<open>dist/index.js\<close> lines 315 to 328).
\<close>

definition halt ::
  "obj \<Rightarrow> obj \<Rightarrow> string \<Rightarrow> network \<Rightarrow> event list \<Rightarrow> (exn + jsval) \<times> event list" where
  "halt params context now net tr =
     (let reason = field params ''reason'';
          accountId = field params ''accountId''
      in (Inr (JObj [(''accountId'', js_or accountId (JStr ''unknown'')),
                     (''reason'', reason),
                     (''haltedAt'', JStr now),
                     (''cleanupCompleted'', JBool True)]), tr))"

section \<open>Notions used to state the properties\<close>

text \<open>
  The member that \<open>JSON.stringify\<close> writes for a key of the body: none when the key is
  missing or its value is \<open>undefined\<close>.
\<close>

definition json_member :: "jsval \<Rightarrow> string \<Rightarrow> jsval option" where
  "json_member b k =
     (case b of
        JObj fs \<Rightarrow> (case map_of fs k of None \<Rightarrow> None
                     | Some v \<Rightarrow> if v = JUndefined then None else Some v)
      | _ \<Rightarrow> None)"


subsection \<open>The specification's wording, for comparison with the code\<close>



text \<open>
  The message for an unsuccessful response, in the words of the specification: a JSON
  body with a \<open>detailCode\<close> field gives the detail code and the tracking identifier
  or nothing; otherwise a JSON body with a \<open>message\<close> field gives that message; otherwise
  a body that is not JSON gives its text when that is not empty; otherwise the status.
\<close>

definition spec_errorMessage :: "response \<Rightarrow> string" where
  "spec_errorMessage r =
     (case json_result r of
        Inr (JObj fs) \<Rightarrow>
          (case map_of fs ''detailCode'' of
             Some detailCode \<Rightarrow>
               ''Failed to enable account: '' @ js_toString detailCode @ '' - '' @
               (case map_of fs ''trackingId'' of Some t \<Rightarrow> js_toString t | None \<Rightarrow> [])
           | None \<Rightarrow>
              (case map_of fs ''message'' of
                 Some m \<Rightarrow> ''Failed to enable account: '' @ js_toString m
               | None \<Rightarrow> ''Failed to enable account: HTTP '' @ show_int (status r)))
      | Inr _ \<Rightarrow> ''Failed to enable account: HTTP '' @ show_int (status r)
      | Inl _ \<Rightarrow>
          (case text_result r of
             Inr t \<Rightarrow> if t \<noteq> [] then ''Failed to enable account: '' @ t
                      else ''Failed to enable account: HTTP '' @ show_int (status r)
           | Inl _ \<Rightarrow> ''Failed to enable account: HTTP '' @ show_int (status r)))"

text \<open>
  The task identifier and the message of a result, in the words of the specification:
  the \<open>id\<close> field of the body, or its \<open>taskId\<close> field when \<open>id\<close> is absent; the
  \<open>message\<close> field of the body, or the fixed text when the body supplies none.
\<close>

definition spec_taskId :: "obj \<Rightarrow> jsval" where
  "spec_taskId d = (case map_of d ''id'' of Some v \<Rightarrow> v | None \<Rightarrow> field d ''taskId'')"

definition spec_message :: "obj \<Rightarrow> jsval" where
  "spec_message d =
     (case map_of d ''message'' of Some v \<Rightarrow> v
      | None \<Rightarrow> JStr ''Account enable operation initiated'')"

text \<open>
  The account identifier of the report of \<open>halt\<close>, in the words of the specification:
  the one supplied, or \<open>unknown\<close> when none is supplied.
\<close>

definition spec_halt_accountId :: "obj \<Rightarrow> jsval" where
  "spec_halt_accountId params =
     (case map_of params ''accountId'' of Some v \<Rightarrow> v | None \<Rightarrow> JStr ''unknown'')"

section \<open>Facts about the string functions\<close>

text \<open>
  \<open>startsWith\<close> and \<open>str_includes\<close> are the prefix and the substring tests.
\<close>

lemma startsWith_iff: "startsWith s p \<longleftrightarrow> (\<exists>r. s = p @ r)"
proof
  assume "startsWith s p"
  then have "s = p @ drop (length p) s"
    by (metis append_take_drop_id startsWith_def)
  then show "\<exists>r. s = p @ r" ..
next
  assume "\<exists>r. s = p @ r"
  then show "startsWith s p"
    by (auto simp: startsWith_def)
qed

lemma str_includes_iff: "str_includes s sub \<longleftrightarrow> (\<exists>p q. s = p @ sub @ q)"
proof (induction s)
  case Nil
  then show ?case by auto
next
  case (Cons c cs)
  show ?case
  proof
    assume "str_includes (c # cs) sub"
    then consider "startsWith (c # cs) sub" | "str_includes cs sub" by auto
    then show "\<exists>p q. c # cs = p @ sub @ q"
    proof cases
      case 1
      then obtain r where "c # cs = sub @ r" using startsWith_iff by blast
      then have "c # cs = [] @ sub @ r" by simp
      then show ?thesis by blast
    next
      case 2
      then obtain p q where "cs = p @ sub @ q" using Cons.IH by blast
      then have "c # cs = (c # p) @ sub @ q" by simp
      then show ?thesis by blast
    qed
  next
    assume "\<exists>p q. c # cs = p @ sub @ q"
    then obtain p q where e: "c # cs = p @ sub @ q" by blast
    show "str_includes (c # cs) sub"
    proof (cases p)
      case Nil
      with e have "startsWith (c # cs) sub" using startsWith_iff by auto
      then show ?thesis by simp
    next
      case (Cons x p')
      with e have "cs = p' @ sub @ q" by simp
      then have "str_includes cs sub" using Cons.IH by blast
      then show ?thesis by simp
    qed
  qed
qed

section \<open>Facts about the helper \<open>enableAccount\<close>\<close>

lemma startsWith_Bearer: "startsWith (''Bearer '' @ t) ''Bearer ''"
  by (simp add: startsWith_def)

lemma bearer_idem: "bearer (bearer t) = bearer t"
  using startsWith_Bearer [of t] by (simp add: bearer_def)

lemma bearer_not_doubled:
  "\<not> startsWith t ''Bearer '' \<Longrightarrow> \<not> startsWith (bearer t) ''Bearer Bearer ''"
  by (simp add: bearer_def startsWith_def)

lemma enableAccount_utils_sends:
  "enableAccount_utils a b (JStr t) ev fp net tr =
     (net (fetches tr),
      tr @ [Fetch \<lparr>url = js_toString b @ ''/v3/accounts/'' @
                          encodeURIComponent (js_toString a) @ ''/enable'',
                  httpMethod = ''POST'', headers = enableHeaders (bearer t),
                  body = JObj (requestBody ev fp)\<rparr>])"
  by (simp add: enableAccount_utils_def enableRequest_utils_def and_then_def fetch_def)

lemma enableRequest_domain_Inr:
  "enableRequest_domain origin_of a d (JStr t) ev fp = Inr req \<Longrightarrow>
     headers req = enableHeaders (bearer t) \<and> body req = JObj (requestBody ev fp)"
  by (auto simp: enableRequest_domain_def and_then_def split: sum.splits)

text \<open>
  C8. For every token string, the \<open>Authorization\<close> header of the request that is sent
  is the token itself when the token starts with \<open>Bearer \<close>, and \<open>Bearer \<close> followed by
  the token otherwise. The normalisation is idempotent, its result always starts with
  the prefix, and the prefix is added only to a token that lacks it, so that it is
  never doubled by the normalisation. This holds in the variant that takes a base
  address, where a request is always sent, and in the variant that takes a tenant
  domain, for every request that is built.
\<close>

theorem bearer_prefix_once:
  "(\<exists>req. snd (enableAccount_utils a b (JStr t) ev fp net tr) = tr @ [Fetch req] \<and>
          map_of (headers req) ''Authorization'' = Some (bearer t)) \<and>
   (\<forall>req. enableRequest_domain origin_of a d (JStr t) ev fp = Inr req \<longrightarrow>
          map_of (headers req) ''Authorization'' = Some (bearer t)) \<and>
   bearer t = (if startsWith t ''Bearer '' then t else ''Bearer '' @ t) \<and>
   bearer (bearer t) = bearer t \<and>
   startsWith (bearer t) ''Bearer '' \<and>
   (startsWith t ''Bearer '' \<or>
      (drop (length ''Bearer '') (bearer t) = t \<and> \<not> startsWith (bearer t) ''Bearer Bearer ''))"
proof -
  have 1: "\<exists>req. snd (enableAccount_utils a b (JStr t) ev fp net tr) = tr @ [Fetch req] \<and>
          map_of (headers req) ''Authorization'' = Some (bearer t)"
    by (simp add: enableAccount_utils_sends enableHeaders_def)
  have 2: "\<forall>req. enableRequest_domain origin_of a d (JStr t) ev fp = Inr req \<longrightarrow>
          map_of (headers req) ''Authorization'' = Some (bearer t)"
    using enableRequest_domain_Inr by (fastforce simp: enableHeaders_def)
  have 3: "startsWith (bearer t) ''Bearer ''"
    using startsWith_Bearer [of t] by (simp add: bearer_def)
  have 4: "startsWith t ''Bearer '' \<or> drop (length ''Bearer '') (bearer t) = t"
    by (simp add: bearer_def)
  have 5: "startsWith t ''Bearer '' \<or> \<not> startsWith (bearer t) ''Bearer Bearer ''"
    using bearer_not_doubled by blast
  have 6: "bearer t = (if startsWith t ''Bearer '' then t else ''Bearer '' @ t)"
    by (simp add: bearer_def)
  have 7: "bearer (bearer t) = bearer t"
    by (rule bearer_idem)
  show ?thesis using 1 2 3 4 5 6 7 by blast
qed

theorem bearer_prefix_once_witness:
  "snd (enableAccount_utils (JStr ''acc123'') (JStr ''https://example.api.identitynow.com'')
          (JStr ''test-token'') JUndefined JUndefined (\<lambda>n. Inl TypeError) []) =
     [Fetch \<lparr>url = ''https://example.api.identitynow.com/v3/accounts/acc123/enable'',
             httpMethod = ''POST'',
             headers = [(''Authorization'', ''Bearer test-token''),
                        (''Accept'', ''application/json''),
                        (''Content-Type'', ''application/json'')],
             body = JObj []\<rparr>] \<and>
   bearer ''test-token'' = ''Bearer test-token'' \<and>
   bearer (bearer ''test-token'') = ''Bearer test-token''"
proof -
  note T = bearer_prefix_once [of "JStr ''acc123''" "JStr ''https://example.api.identitynow.com''"
        "''test-token''" JUndefined JUndefined "\<lambda>n. Inl TypeError" "[]" Inr "JStr ''x''"]
  from T have a1: "bearer ''test-token'' =
      (if startsWith ''test-token'' ''Bearer '' then ''test-token'' else ''Bearer '' @ ''test-token'')"
    by blast
  from T have a2: "bearer (bearer ''test-token'') = bearer ''test-token''"
    by blast
  have a: "bearer ''test-token'' = ''Bearer test-token''"
    using a1 by (simp add: startsWith_def)
  have b: "snd (enableAccount_utils (JStr ''acc123'') (JStr ''https://example.api.identitynow.com'')
          (JStr ''test-token'') JUndefined JUndefined (\<lambda>n. Inl TypeError) []) =
     [Fetch \<lparr>url = ''https://example.api.identitynow.com/v3/accounts/acc123/enable'',
             httpMethod = ''POST'',
             headers = [(''Authorization'', ''Bearer test-token''),
                        (''Accept'', ''application/json''),
                        (''Content-Type'', ''application/json'')],
             body = JObj []\<rparr>]"
    by code_simp
  show ?thesis using a a2 b by simp
qed

text \<open>
  C5. For every combination of the optional inputs, the body of the request holds the
  key \<open>externalVerificationId\<close>, with the input as its value, exactly when that input is
  truthy, and the key \<open>forceProvisioning\<close>, with the input as its value, exactly when
  that input is neither \<open>undefined\<close> nor \<open>null\<close>: \<open>false\<close> gives the key with the value
  \<open>false\<close>, an absent input gives a body without the key. The body has no other key.
\<close>

theorem requestBody_conditional_keys:
  "(\<exists>req. snd (enableAccount_utils a b (JStr t) ev fp net tr) = tr @ [Fetch req] \<and>
          body req = JObj (requestBody ev fp)) \<and>
   (\<forall>req. enableRequest_domain origin_of a d (JStr t) ev fp = Inr req \<longrightarrow>
          body req = JObj (requestBody ev fp)) \<and>
   json_member (JObj (requestBody ev fp)) ''externalVerificationId'' =
     (if truthy ev then Some ev else None) \<and>
   json_member (JObj (requestBody ev fp)) ''forceProvisioning'' =
     (if fp \<noteq> JUndefined \<and> fp \<noteq> JNull then Some fp else None) \<and>
   json_member (JObj (requestBody ev (JBool False))) ''forceProvisioning'' = Some (JBool False) \<and>
   json_member (JObj (requestBody ev JUndefined)) ''forceProvisioning'' = None \<and>
   set (map fst (requestBody ev fp)) \<subseteq> {''externalVerificationId'', ''forceProvisioning''}"
proof -
  have 1: "\<exists>req. snd (enableAccount_utils a b (JStr t) ev fp net tr) = tr @ [Fetch req] \<and>
          body req = JObj (requestBody ev fp)"
    by (simp add: enableAccount_utils_sends)
  have 2: "\<forall>req. enableRequest_domain origin_of a d (JStr t) ev fp = Inr req \<longrightarrow>
          body req = JObj (requestBody ev fp)"
    using enableRequest_domain_Inr by blast
  have 3: "json_member (JObj (requestBody ev fp)) ''externalVerificationId'' =
     (if truthy ev then Some ev else None)"
    by (cases ev) (auto simp: json_member_def requestBody_def)
  have 4: "json_member (JObj (requestBody e' f')) ''forceProvisioning'' =
     (if f' \<noteq> JUndefined \<and> f' \<noteq> JNull then Some f' else None)" for e' f'
    by (simp add: json_member_def requestBody_def)
  have 5: "set (map fst (requestBody ev fp)) \<subseteq> {''externalVerificationId'', ''forceProvisioning''}"
    by (auto simp: requestBody_def)
  show ?thesis using 1 2 3 4 [of ev fp] 4 [of ev "JBool False"] 4 [of ev JUndefined] 5
    by simp
qed

theorem requestBody_conditional_keys_witness:
  "enableRequest_domain Inr (JStr ''acc123'') (JStr ''example.api.identitynow.com'')
     (JStr ''test-token'') (JStr ''ext456'') (JBool False) =
     Inr \<lparr>url = ''https://example.api.identitynow.com/v3/accounts/acc123/enable'',
          httpMethod = ''POST'',
          headers = [(''Authorization'', ''Bearer test-token''),
                     (''Accept'', ''application/json''),
                     (''Content-Type'', ''application/json'')],
          body = JObj [(''externalVerificationId'', JStr ''ext456''),
                       (''forceProvisioning'', JBool False)]\<rparr> \<and>
   JObj (requestBody (JStr ''ext456'') (JBool False)) =
     JObj [(''externalVerificationId'', JStr ''ext456''), (''forceProvisioning'', JBool False)] \<and>
   json_member (JObj (requestBody (JStr ''ext456'') (JBool False))) ''forceProvisioning'' =
     Some (JBool False) \<and>
   json_member (JObj (requestBody (JStr ''ext456'') JUndefined)) ''forceProvisioning'' = None"
proof -
  let ?req = "\<lparr>url = ''https://example.api.identitynow.com/v3/accounts/acc123/enable'',
          httpMethod = ''POST'',
          headers = [(''Authorization'', ''Bearer test-token''),
                     (''Accept'', ''application/json''),
                     (''Content-Type'', ''application/json'')],
          body = JObj [(''externalVerificationId'', JStr ''ext456''),
                       (''forceProvisioning'', JBool False)]\<rparr>"
  note T = requestBody_conditional_keys [of "JStr ''acc123''" JNull "''test-token''"
      "JStr ''ext456''" "JBool False" "\<lambda>n. Inl TypeError" "[]" Inr
      "JStr ''example.api.identitynow.com''"]
  have h: "enableRequest_domain Inr (JStr ''acc123'') (JStr ''example.api.identitynow.com'')
     (JStr ''test-token'') (JStr ''ext456'') (JBool False) = Inr ?req"
    by code_simp
  from T h have "body ?req = JObj (requestBody (JStr ''ext456'') (JBool False))"
    by blast
  then have b: "JObj (requestBody (JStr ''ext456'') (JBool False)) =
     JObj [(''externalVerificationId'', JStr ''ext456''), (''forceProvisioning'', JBool False)]"
    by simp
  from T have c: "json_member (JObj (requestBody (JStr ''ext456'') (JBool False)))
      ''forceProvisioning'' = Some (JBool False)"
    by blast
  from T have d: "json_member (JObj (requestBody (JStr ''ext456'') JUndefined))
      ''forceProvisioning'' = None"
    by blast
  show ?thesis using h b c d by blast
qed

text \<open>
  In the variant that takes a base address the URL handed to \<open>fetch\<close> is the address
  followed by \<open>/v3/accounts/\<close>, the encoded identifier and \<open>/enable\<close>, for every
  identifier; and the encoded identifier holds none of the characters
  \<open>; / ? : @ & = + $ , # [ ]\<close> nor a space, in any variant.
\<close>

lemma enableAccount_utils_url:
  "snd (enableAccount_utils (JStr a) (JStr b) (JStr t) ev fp net tr) = tr @ [Fetch req] \<Longrightarrow>
     url req = b @ ''/v3/accounts/'' @ encodeURIComponent a @ ''/enable''"
  by (auto simp: enableAccount_utils_sends)

lemma hexDigit_in:
  assumes "d < 16"
  shows "hexDigit d \<in> set hexDigits"
proof -
  have "length hexDigits = 16"
    by (simp add: hexDigits_def)
  with assms have "d < length hexDigits" by simp
  then show ?thesis
    unfolding hexDigit_def by (rule nth_mem)
qed

lemma of_char_less_256: "(of_char c :: nat) < 256"
proof -
  have "(of_char c :: nat) mod 256 = of_char c"
    by (rule of_char_mod_256)
  then show ?thesis
    by (metis mod_less_divisor zero_less_numeral)
qed

lemma percentEncode_chars:
  assumes "c' \<in> set (percentEncode c)"
  shows "c' = CHR ''%'' \<or> c' \<in> set hexDigits"
proof -
  have "(of_char c :: nat) < 16 * 16"
    using of_char_less_256 [of c] by simp
  then have a: "(of_char c :: nat) div 16 < 16"
    by (simp only: less_mult_imp_div_less)
  have b: "(of_char c :: nat) mod 16 < 16" by simp
  from assms have "c' = CHR ''%'' \<or> c' = hexDigit ((of_char c :: nat) div 16) \<or>
      c' = hexDigit ((of_char c :: nat) mod 16)"
    by (simp add: percentEncode_def)
  then show ?thesis
    using hexDigit_in [OF a] hexDigit_in [OF b] by blast
qed

lemma encodeURIComponent_chars:
  assumes "c \<in> set (encodeURIComponent s)"
  shows "c \<in> set uriUnescaped \<or> c = CHR ''%'' \<or> c \<in> set hexDigits"
proof -
  from assms obtain x where x: "x \<in> set s"
    and c: "c \<in> set (if x \<in> set uriUnescaped then [x] else percentEncode x)"
    unfolding encodeURIComponent_def by auto
  show ?thesis
  proof (cases "x \<in> set uriUnescaped")
    case True
    with c show ?thesis by simp
  next
    case False
    with c have "c \<in> set (percentEncode x)" by simp
    then show ?thesis using percentEncode_chars by blast
  qed
qed

lemma reserved_not_kept:
  "\<forall>c \<in> set '';/?:@&=+$,#[] ''.
     c \<notin> set uriUnescaped \<and> c \<noteq> CHR ''%'' \<and> c \<notin> set hexDigits"
  by code_simp

lemma encodeURIComponent_escapes_reserved:
  assumes "c \<in> set '';/?:@&=+$,#[] ''"
  shows "c \<notin> set (encodeURIComponent s)"
proof
  assume "c \<in> set (encodeURIComponent s)"
  then have "c \<in> set uriUnescaped \<or> c = CHR ''%'' \<or> c \<in> set hexDigits"
    by (rule encodeURIComponent_chars)
  then show False
    using assms reserved_not_kept by blast
qed

text \<open>
  In the variant that takes a tenant domain the URL is the scheme and authority of the
  base followed by \<open>/v3/accounts/\<close>, the encoded identifier and \<open>/enable\<close> for every
  identifier but \<open>.\<close> and \<open>..\<close>: the encoded form has no \<open>/\<close>, and it is a dot segment
  only for these two.
\<close>

lemma enc_Nil [simp]: "encodeURIComponent [] = []"
  by (simp add: encodeURIComponent_def)

lemma enc_Cons_unescaped:
  "c \<in> set uriUnescaped \<Longrightarrow> encodeURIComponent (c # cs) = c # encodeURIComponent cs"
  by (simp add: encodeURIComponent_def)

lemma enc_Cons_escaped:
  "c \<notin> set uriUnescaped \<Longrightarrow>
     encodeURIComponent (c # cs) = percentEncode c @ encodeURIComponent cs"
  by (simp add: encodeURIComponent_def)

lemma percentEncode_shape:
  "percentEncode c = [CHR ''%'', hexDigit ((of_char c :: nat) div 16),
                      hexDigit ((of_char c :: nat) mod 16)]"
  by (simp add: percentEncode_def)

lemma enc_Nil_iff: "encodeURIComponent s = [] \<longleftrightarrow> s = []"
  by (cases s) (auto simp: encodeURIComponent_def percentEncode_def)

lemma percent_escaped: "CHR ''%'' \<notin> set uriUnescaped"
  by code_simp

lemma hexDigit_table:
  "\<forall>x \<in> set [0..<16].
     (hexDigit x = CHR ''2'' \<longrightarrow> x = 2) \<and> (hexDigit x = CHR ''E'' \<longrightarrow> x = 14) \<and>
     hexDigit x \<noteq> CHR ''e''"
  by code_simp

lemma dot_of_46: "(of_char c :: nat) = 46 \<Longrightarrow> c = CHR ''.''"
proof -
  assume "(of_char c :: nat) = 46"
  then have "char_of (of_char c :: nat) = char_of (46 :: nat)" by simp
  then have "c = char_of (46 :: nat)" by simp
  also have "char_of (46 :: nat) = CHR ''.''" by code_simp
  finally show ?thesis .
qed

lemma percentEncode_not_dot:
  assumes "c \<notin> set uriUnescaped"
  shows "percentEncode c \<noteq> ''%2e''" and "percentEncode c \<noteq> ''%2E''"
proof -
  let ?n = "of_char c :: nat"
  have "?n < 16 * 16" using of_char_less_256 [of c] by simp
  then have a: "?n div 16 \<in> set [0..<16]"
    by (simp add: less_mult_imp_div_less)
  have b: "?n mod 16 \<in> set [0..<16]" by simp
  show "percentEncode c \<noteq> ''%2e''"
    using hexDigit_table b by (auto simp: percentEncode_shape)
  show "percentEncode c \<noteq> ''%2E''"
  proof
    assume "percentEncode c = ''%2E''"
    then have "hexDigit (?n div 16) = CHR ''2''" and "hexDigit (?n mod 16) = CHR ''E''"
      by (simp_all add: percentEncode_shape)
    with hexDigit_table a b have "?n div 16 = 2" and "?n mod 16 = 14"
      by blast+
    then have "?n = 46"
      using div_mult_mod_eq [of ?n 16] by simp
    then have "c = CHR ''.''" by (rule dot_of_46)
    moreover have "CHR ''.'' \<in> set uriUnescaped" by code_simp
    ultimately show False using assms by simp
  qed
qed

lemma dot_candidates:
  assumes "single_dot d \<or> double_dot d"
  shows "(hd d = CHR ''%'' \<and> (take 3 d = ''%2e'' \<or> take 3 d = ''%2E'')) \<or>
         (hd d = CHR ''.'' \<and> (tl d = [] \<or> tl d = ''.'' \<or> tl d = ''%2e'' \<or> tl d = ''%2E''))"
  using assms by (auto simp: single_dot_def double_dot_def)

lemma enc_escaped_take:
  "c \<notin> set uriUnescaped \<Longrightarrow> take 3 (encodeURIComponent (c # cs)) = percentEncode c"
  by (simp add: enc_Cons_escaped percentEncode_shape)

lemma enc_escaped_hd:
  "c \<notin> set uriUnescaped \<Longrightarrow> hd (encodeURIComponent (c # cs)) = CHR ''%''"
  by (simp add: enc_Cons_escaped percentEncode_shape)

lemma enc_single_dot:
  assumes "encodeURIComponent s = ''.''"
  shows "s = ''.''"
proof (cases s)
  case Nil
  with assms show ?thesis by simp
next
  case (Cons c cs)
  show ?thesis
  proof (cases "c \<in> set uriUnescaped")
    case True
    with assms Cons have "c = CHR ''.''" and "encodeURIComponent cs = []"
      by (simp_all add: enc_Cons_unescaped)
    then show ?thesis using Cons by (simp add: enc_Nil_iff)
  next
    case False
    with assms Cons show ?thesis
      by (simp add: enc_Cons_escaped percentEncode_shape)
  qed
qed

lemma enc_not_percent_dot:
  "encodeURIComponent s \<noteq> ''%2e''" "encodeURIComponent s \<noteq> ''%2E''"
proof -
  have "encodeURIComponent s \<noteq> ''%2e'' \<and> encodeURIComponent s \<noteq> ''%2E''"
  proof (cases s)
    case Nil
    then show ?thesis by simp
  next
    case (Cons c cs)
    show ?thesis
    proof (cases "c \<in> set uriUnescaped")
      case True
      then have "hd (encodeURIComponent s) = c"
        using Cons by (simp add: enc_Cons_unescaped)
      moreover have "c \<noteq> CHR ''%''"
        using True percent_escaped by blast
      ultimately show ?thesis by auto
    next
      case False
      then have "take 3 (encodeURIComponent s) = percentEncode c"
        using Cons by (simp add: enc_escaped_take)
      then show ?thesis
        using percentEncode_not_dot [OF False] by auto
    qed
  qed
  then show "encodeURIComponent s \<noteq> ''%2e''" "encodeURIComponent s \<noteq> ''%2E''"
    by simp_all
qed

lemma enc_dot_segment:
  assumes "single_dot (encodeURIComponent a) \<or> double_dot (encodeURIComponent a)"
  shows "a = ''.'' \<or> a = ''..''"
proof (cases a)
  case Nil
  with assms show ?thesis
    by (simp add: single_dot_def double_dot_def)
next
  case (Cons c cs)
  note d = dot_candidates [OF assms]
  show ?thesis
  proof (cases "c \<in> set uriUnescaped")
    case False
    have "hd (encodeURIComponent a) = CHR ''%''"
      using False Cons by (simp add: enc_escaped_hd)
    moreover have "take 3 (encodeURIComponent a) = percentEncode c"
      using False Cons by (simp add: enc_escaped_take)
    ultimately show ?thesis
      using d percentEncode_not_dot [OF False] by auto
  next
    case True
    have e: "encodeURIComponent a = c # encodeURIComponent cs"
      using True Cons by (simp add: enc_Cons_unescaped)
    have "c \<noteq> CHR ''%''"
      using True percent_escaped by blast
    with d e have c: "c = CHR ''.''"
      and t: "encodeURIComponent cs = [] \<or> encodeURIComponent cs = ''.'' \<or>
              encodeURIComponent cs = ''%2e'' \<or> encodeURIComponent cs = ''%2E''"
      by auto
    from t enc_not_percent_dot [of cs]
    have "encodeURIComponent cs = [] \<or> encodeURIComponent cs = ''.''"
      by blast
    then have "cs = [] \<or> cs = ''.''"
      using enc_Nil_iff enc_single_dot by blast
    with c Cons show ?thesis by auto
  qed
qed

lemma split_slash_segment:
  "CHR ''/'' \<notin> set s \<Longrightarrow> split_slash (s @ CHR ''/'' # rest) = s # split_slash rest"
  by (induction s) auto

lemma split_slash_last: "CHR ''/'' \<notin> set s \<Longrightarrow> split_slash s = [s]"
  by (induction s) auto

lemma URL_pathname_segment:
  assumes "CHR ''/'' \<notin> set seg" and "\<not> single_dot seg" and "\<not> double_dot seg"
  shows "URL_pathname (''/v3/accounts/'' @ seg @ ''/enable'') = ''/v3/accounts/'' @ seg @ ''/enable''"
proof -
  have "tl (''/v3/accounts/'' @ seg @ ''/enable'') =
          ''v3'' @ CHR ''/'' # (''accounts'' @ CHR ''/'' # (seg @ CHR ''/'' # ''enable''))"
    by simp
  moreover have "split_slash (''v3'' @ CHR ''/'' # (''accounts'' @ CHR ''/'' # (seg @ CHR ''/'' # ''enable'')))
          = [''v3'', ''accounts'', seg, ''enable'']"
  proof -
    have 1: "split_slash ''enable'' = [''enable'']"
      by (rule split_slash_last) simp
    have 2: "split_slash (seg @ CHR ''/'' # ''enable'') = seg # split_slash ''enable''"
      using assms(1) by (rule split_slash_segment)
    have 3: "split_slash (''accounts'' @ CHR ''/'' # x) = ''accounts'' # split_slash x" for x
      by (rule split_slash_segment) simp
    have 4: "split_slash (''v3'' @ CHR ''/'' # x) = ''v3'' # split_slash x" for x
      by (rule split_slash_segment) simp
    show ?thesis
      by (simp only: 4 3 2 1)
  qed
  ultimately have "split_slash (tl (''/v3/accounts/'' @ seg @ ''/enable'')) =
      [''v3'', ''accounts'', seg, ''enable'']"
    by (simp only:)
  moreover have "url_path [] [''v3'', ''accounts'', seg, ''enable''] =
      [''v3'', ''accounts'', seg, ''enable'']"
    using assms(2,3) by (simp add: single_dot_def double_dot_def)
  ultimately show ?thesis
    by (simp add: URL_pathname_def)
qed

lemma enableRequest_domain_url:
  assumes "a \<noteq> ''.''" and "a \<noteq> ''..''"
    and "enableRequest_domain origin_of (JStr a) d t ev fp = Inr req"
    and "origin_of (''https://'' @ js_toString d) = Inr origin"
  shows "url req = origin @ ''/v3/accounts/'' @ encodeURIComponent a @ ''/enable''"
proof -
  have s: "CHR ''/'' \<notin> set (encodeURIComponent a)"
    by (rule encodeURIComponent_escapes_reserved) simp
  have n: "\<not> single_dot (encodeURIComponent a)" "\<not> double_dot (encodeURIComponent a)"
    using enc_dot_segment [of a] assms(1,2) by blast+
  show ?thesis
    using assms(3,4) URL_pathname_segment [OF s n]
    by (auto simp: enableRequest_domain_def and_then_def split: sum.splits)
qed

text \<open>The handler \<open>invoke\<close> accepts the identifier \<open>..\<close>, a string that is not empty.\<close>

lemma invoke_domain_accepts_dot_segment:
  "invoke_domain Inr
     [(''accountId'', JStr ''..''), (''sailpointDomain'', JStr ''example.api.identitynow.com'')]
     [(''secrets'', JObj [(''BEARER_AUTH_TOKEN'', JStr ''test-token'')])]
     ''2026-01-01T00:00:00.000Z''
     (\<lambda>n. Inr \<lparr>ok = True, status = 202, json_result = Inr (JObj [(''id'', JStr ''task789'')]),
                   text_result = Inr []\<rparr>) [] =
   (Inr (JObj [(''accountId'', JStr ''..''), (''enabled'', JBool True),
               (''taskId'', JStr ''task789''),
               (''message'', JStr ''Account enable operation initiated''),
               (''enabledAt'', JStr ''2026-01-01T00:00:00.000Z'')]),
    [Fetch \<lparr>url = ''https://example.api.identitynow.com/v3/enable'',
            httpMethod = ''POST'',
            headers = [(''Authorization'', ''Bearer test-token''),
                       (''Accept'', ''application/json''),
                       (''Content-Type'', ''application/json'')],
            body = JObj []\<rparr>])"
  by code_simp

text \<open>
  C4. The identifier in the path is the \<open>encodeURIComponent\<close> form of the input, and
  the URL is the base followed by \<open>/v3/accounts/\<close>, that form and \<open>/enable\<close>: so it is
  in the variant that takes a base address (\<open>enableAccount_utils_url\<close>). In the variant
  that takes a tenant domain the path goes through the URL constructor, which removes
  dot segments, and \<open>encodeURIComponent\<close> leaves dots as they are: for the identifier
  \<open>..\<close> the request is sent to \<open>/v3/enable\<close>, and for \<open>.\<close> to \<open>/v3/accounts/enable\<close>,
  so that the identifier is not in the path at all.
\<close>

theorem enable_url_dot_segment:
  "encodeURIComponent ''..'' = ''..'' \<and>
   snd (enableAccount_domain Inr (JStr ''..'') (JStr ''example.api.identitynow.com'')
          (JStr ''test-token'') JUndefined JUndefined (\<lambda>n. Inl TypeError) []) =
     [Fetch \<lparr>url = ''https://example.api.identitynow.com/v3/enable'',
             httpMethod = ''POST'',
             headers = [(''Authorization'', ''Bearer test-token''),
                        (''Accept'', ''application/json''),
                        (''Content-Type'', ''application/json'')],
             body = JObj []\<rparr>] \<and>
   snd (enableAccount_domain Inr (JStr ''.'') (JStr ''example.api.identitynow.com'')
          (JStr ''test-token'') JUndefined JUndefined (\<lambda>n. Inl TypeError) []) =
     [Fetch \<lparr>url = ''https://example.api.identitynow.com/v3/accounts/enable'',
             httpMethod = ''POST'',
             headers = [(''Authorization'', ''Bearer test-token''),
                        (''Accept'', ''application/json''),
                        (''Content-Type'', ''application/json'')],
             body = JObj []\<rparr>] \<and>
   snd (enableAccount_utils (JStr ''..'') (JStr ''https://example.api.identitynow.com'')
          (JStr ''test-token'') JUndefined JUndefined (\<lambda>n. Inl TypeError) []) =
     [Fetch \<lparr>url = ''https://example.api.identitynow.com/v3/accounts/../enable'',
             httpMethod = ''POST'',
             headers = [(''Authorization'', ''Bearer test-token''),
                        (''Accept'', ''application/json''),
                        (''Content-Type'', ''application/json'')],
             body = JObj []\<rparr>]"
  by code_simp

section \<open>Facts about the handler \<open>invoke\<close>\<close>

lemma get_prop_defined:
  "v \<noteq> JNull \<Longrightarrow> v \<noteq> JUndefined \<Longrightarrow> get_prop v k = Inr (get_prop_opt v k)"
  by (cases v) simp_all

lemma get_prop_Inr: "get_prop v k = Inr x \<Longrightarrow> get_prop_opt v k = x"
  by (cases v) auto

text \<open>
  Both variants of \<open>invoke\<close> hand the response of \<open>enableAccount\<close> to the same
  code, modelled by \<open>invoke_response\<close>.
\<close>

lemma invoke_domain_response:
  assumes "field params ''accountId'' = JStr a" and "a \<noteq> []"
    and "field params ''sailpointDomain'' = JStr d" and "d \<noteq> []"
    and "get_prop_opt (field context ''secrets'') ''BEARER_AUTH_TOKEN'' = JStr t" and "t \<noteq> []"
    and "enableAccount_domain origin_of (JStr a) (JStr d) (JStr t)
           (field params ''externalVerificationId'') (field params ''forceProvisioning'') net tr =
         (Inr r, tr')"
  shows "invoke_domain origin_of params context now net tr =
           (invoke_response (JStr a) [] now r, tr')"
  using assms by (simp add: invoke_domain_def Let_def)

lemma invoke_utils_response:
  assumes "getBaseURL (resolveJSONPathTemplates params (js_or (field context ''data'') (JObj [])))
             context = Inr baseUrl"
    and "getAuthorizationHeader context tr = (Inr h, tr1)"
    and "enableAccount_utils
           (field (resolveJSONPathTemplates params (js_or (field context ''data'') (JObj [])))
              ''accountId'')
           baseUrl h
           (field (resolveJSONPathTemplates params (js_or (field context ''data'') (JObj [])))
              ''externalVerificationId'')
           (field (resolveJSONPathTemplates params (js_or (field context ''data'') (JObj [])))
              ''forceProvisioning'') net tr1 = (Inr r, tr2)"
  shows "invoke_utils resolveJSONPathTemplates getAuthorizationHeader params context now net tr =
           (invoke_response
              (field (resolveJSONPathTemplates params (js_or (field context ''data'') (JObj [])))
                 ''accountId'')
              [(''address'', baseUrl)] now r, tr2)"
  using assms by (simp add: invoke_utils_def Let_def)

lemma errorMessage_json_value:
  assumes "json_result r = Inr v" and "v \<noteq> JNull" and "v \<noteq> JUndefined"
  shows "errorMessage_json r =
     Inr (if truthy (get_prop_opt v ''detailCode'')
          then ''Failed to enable account: '' @ js_toString (get_prop_opt v ''detailCode'') @
               '' - '' @ js_toString (js_or (get_prop_opt v ''trackingId'') (JStr []))
          else if truthy (get_prop_opt v ''message'')
          then ''Failed to enable account: '' @ js_toString (get_prop_opt v ''message'')
          else ''Failed to enable account: HTTP '' @ show_int (status r))"
  using assms by (simp add: errorMessage_json_def and_then_def get_prop_defined)

lemma errorMessage_json_raises:
  assumes "case json_result r of Inl e \<Rightarrow> True | Inr v \<Rightarrow> v = JNull \<or> v = JUndefined"
  shows "\<exists>e. errorMessage_json r = Inl e"
  using assms by (auto simp: errorMessage_json_def and_then_def split: sum.splits)

text \<open>
  C6, as amended. For every unsuccessful response whose body parses as JSON to a value
  other than \<open>null\<close>, the message of the error raised is
  \<open>Failed to enable account: {detailCode} - {trackingId}\<close> when the \<open>detailCode\<close> of
  the body is truthy (the tracking identifier printing as nothing unless it is
  truthy); otherwise \<open>Failed to enable account: {message}\<close> when the \<open>message\<close> of
  the body is truthy; otherwise \<open>Failed to enable account: HTTP {statusCode}\<close>. The
  error carries the status code of the response.
\<close>

theorem error_message_precedence:
  assumes "\<not> ok r" and "json_result r = Inr v" and "v \<noteq> JNull" and "v \<noteq> JUndefined"
  shows "invoke_response accountId extra now r =
           Inl (Thrown (js_Error_status
             (if truthy (get_prop_opt v ''detailCode'')
              then ''Failed to enable account: '' @ js_toString (get_prop_opt v ''detailCode'') @
                   '' - '' @ js_toString (js_or (get_prop_opt v ''trackingId'') (JStr []))
              else if truthy (get_prop_opt v ''message'')
              then ''Failed to enable account: '' @ js_toString (get_prop_opt v ''message'')
              else ''Failed to enable account: HTTP '' @ show_int (status r))
             (status r)))"
  using assms errorMessage_json_value [of r v]
  by (simp add: invoke_response_def)

theorem error_message_precedence_witness:
  "invoke_response (JStr ''acc123'') [] ''2026-01-01T00:00:00.000Z''
     \<lparr>ok = False, status = 404,
      json_result = Inr (JObj [(''detailCode'', JStr ''NOT_FOUND''),
                               (''trackingId'', JStr ''track123'')]),
      text_result = Inl TypeError\<rparr> =
   Inl (Thrown (JObj [(''message'', JStr ''Failed to enable account: NOT_FOUND - track123''),
                      (''statusCode'', JNum 404)]))"
proof -
  let ?d = "JObj [(''detailCode'', JStr ''NOT_FOUND''), (''trackingId'', JStr ''track123'')]"
  let ?r = "\<lparr>ok = False, status = 404, json_result = Inr ?d, text_result = Inl TypeError\<rparr>"
  have 1: "\<not> ok ?r" by simp
  have 2: "json_result ?r = Inr ?d" by simp
  have 3: "?d \<noteq> JNull" by simp
  have 4: "?d \<noteq> JUndefined" by simp
  show ?thesis
    by (subst error_message_precedence [OF 1 2 3 4]) code_simp
qed

text \<open>
  The claim as the specification words it fails where the body has a \<open>detailCode\<close>
  that is the empty string: the field is present, and the code goes on to the
  \<open>message\<close> of the body.
\<close>

theorem error_message_precedence_counterexample:
  "invoke_response (JStr ''acc123'') [] ''2026-01-01T00:00:00.000Z''
     \<lparr>ok = False, status = 400,
      json_result = Inr (JObj [(''detailCode'', JStr []),
                               (''message'', JStr ''Account is locked'')]),
      text_result = Inl TypeError\<rparr> =
   Inl (Thrown (JObj [(''message'', JStr ''Failed to enable account: Account is locked''),
                      (''statusCode'', JNum 400)])) \<and>
   spec_errorMessage
     \<lparr>ok = False, status = 400,
      json_result = Inr (JObj [(''detailCode'', JStr []),
                               (''message'', JStr ''Account is locked'')]),
      text_result = Inl TypeError\<rparr> = ''Failed to enable account:  - ''"
  by code_simp

text \<open>
  A body that is not JSON. The \<open>catch\<close> block calls \<open>text()\<close> on the response whose
  body \<open>json()\<close> has read already. Whatever exception \<open>text()\<close> raises is what \<open>invoke\<close>
  raises, and it carries neither the message \<open>Failed to enable account\<close> nor a status
  code. A \<open>Response\<close> of \<open>fetch\<close> rejects that second read with a \<open>TypeError\<close>, so
  for the status 500 and the body \<open>Internal Server Error\<close> the handler raises a
  \<open>TypeError\<close>, where the test \<open>should handle non-JSON error responses\<close> of the
  repository, whose stand-in answers both calls, expects
  \<open>Failed to enable account: Internal Server Error\<close>. The same holds for the body
  \<open>null\<close>, where reading \<open>detailCode\<close> raises inside the \<open>try\<close> block.
\<close>

lemma invoke_response_text_raises:
  assumes "\<not> ok r"
    and "case json_result r of Inl e \<Rightarrow> True | Inr v \<Rightarrow> v = JNull \<or> v = JUndefined"
    and "text_result r = Inl e'"
  shows "invoke_response accountId extra now r = Inl e'"
proof -
  obtain e where "errorMessage_json r = Inl e"
    using assms(2) errorMessage_json_raises by blast
  then show ?thesis
    using assms(1,3) by (simp add: invoke_response_def)
qed

lemma invoke_response_not_json:
  "invoke_response (JStr ''acc123'') [] ''2026-01-01T00:00:00.000Z''
     \<lparr>ok = False, status = 500, json_result = Inl (Thrown (JStr ''SyntaxError'')),
      text_result = Inl TypeError\<rparr> = Inl TypeError \<and>
   invoke_response (JStr ''acc123'') [] ''2026-01-01T00:00:00.000Z''
     \<lparr>ok = False, status = 500, json_result = Inr JNull,
      text_result = Inl TypeError\<rparr> = Inl TypeError"
  by code_simp

text \<open>
  C7, as amended. For every successful response whose body parses as JSON to a value
  other than \<open>null\<close>, the result holds the input account identifier, \<open>enabled: true\<close>,
  as \<open>taskId\<close> the \<open>id\<close> of the body when that is truthy and the \<open>taskId\<close> of the body
  otherwise, as \<open>message\<close> the \<open>message\<close> of the body when that is truthy and the text
  \<open>Account enable operation initiated\<close> otherwise, and the time of the clock. Every
  result \<open>invoke\<close> returns for a successful response carries \<open>enabled: true\<close> and the
  input account identifier.
\<close>

theorem enabled_result_fields:
  assumes "ok r"
  shows "(\<forall>v. json_result r = Inr v \<and> v \<noteq> JNull \<and> v \<noteq> JUndefined \<longrightarrow>
            invoke_response accountId extra now r =
              Inr (JObj ([(''accountId'', accountId), (''enabled'', JBool True),
                          (''taskId'', if truthy (get_prop_opt v ''id'') then get_prop_opt v ''id''
                                       else get_prop_opt v ''taskId''),
                          (''message'', if truthy (get_prop_opt v ''message'')
                                        then get_prop_opt v ''message''
                                        else JStr ''Account enable operation initiated''),
                          (''enabledAt'', JStr now)] @ extra))) \<and>
         (\<forall>res. invoke_response accountId extra now r = Inr res \<longrightarrow>
            get_prop_opt res ''enabled'' = JBool True \<and>
            get_prop_opt res ''accountId'' = accountId)"
proof (intro conjI allI impI)
  fix v
  assume "json_result r = Inr v \<and> v \<noteq> JNull \<and> v \<noteq> JUndefined"
  then show "invoke_response accountId extra now r =
              Inr (JObj ([(''accountId'', accountId), (''enabled'', JBool True),
                          (''taskId'', if truthy (get_prop_opt v ''id'') then get_prop_opt v ''id''
                                       else get_prop_opt v ''taskId''),
                          (''message'', if truthy (get_prop_opt v ''message'')
                                        then get_prop_opt v ''message''
                                        else JStr ''Account enable operation initiated''),
                          (''enabledAt'', JStr now)] @ extra))"
    using assms
    by (simp add: invoke_response_def and_then_def enabledResult_def js_or_def get_prop_defined)
next
  fix res
  assume "invoke_response accountId extra now r = Inr res"
  then show "get_prop_opt res ''enabled'' = JBool True"
    using assms
    by (auto simp: invoke_response_def and_then_def enabledResult_def field_def
        split: sum.splits if_splits)
next
  fix res
  assume "invoke_response accountId extra now r = Inr res"
  then show "get_prop_opt res ''accountId'' = accountId"
    using assms
    by (auto simp: invoke_response_def and_then_def enabledResult_def field_def
        split: sum.splits if_splits)
qed

theorem enabled_result_fields_witness:
  "invoke_response (JStr ''acc123'') [] ''2026-01-01T00:00:00.000Z''
     \<lparr>ok = True, status = 202,
      json_result = Inr (JObj [(''id'', JStr ''task789''),
                               (''message'', JStr ''Account enable initiated'')]),
      text_result = Inr []\<rparr> =
   Inr (JObj [(''accountId'', JStr ''acc123''), (''enabled'', JBool True),
              (''taskId'', JStr ''task789''), (''message'', JStr ''Account enable initiated''),
              (''enabledAt'', JStr ''2026-01-01T00:00:00.000Z'')])"
proof -
  let ?d = "JObj [(''id'', JStr ''task789''), (''message'', JStr ''Account enable initiated'')]"
  let ?r = "\<lparr>ok = True, status = 202, json_result = Inr ?d, text_result = Inr []\<rparr>"
  have k: "ok ?r" by simp
  have j: "json_result ?r = Inr ?d \<and> ?d \<noteq> JNull \<and> ?d \<noteq> JUndefined" by simp
  from enabled_result_fields [OF k, of "JStr ''acc123''" "[]" "''2026-01-01T00:00:00.000Z''"] j
  have "invoke_response (JStr ''acc123'') [] ''2026-01-01T00:00:00.000Z'' ?r =
     Inr (JObj ([(''accountId'', JStr ''acc123''), (''enabled'', JBool True),
                 (''taskId'', if truthy (get_prop_opt ?d ''id'') then get_prop_opt ?d ''id''
                              else get_prop_opt ?d ''taskId''),
                 (''message'', if truthy (get_prop_opt ?d ''message'')
                               then get_prop_opt ?d ''message''
                               else JStr ''Account enable operation initiated''),
                 (''enabledAt'', JStr ''2026-01-01T00:00:00.000Z'')] @ []))"
    by blast
  then show ?thesis by (simp add: field_def)
qed

text \<open>
  The claim as the specification words it fails where the body has an \<open>id\<close> or a
  \<open>message\<close> that is the empty string: the code falls back although the field is there.
\<close>

theorem enabled_result_fields_counterexample:
  "invoke_response (JStr ''acc123'') [] ''2026-01-01T00:00:00.000Z''
     \<lparr>ok = True, status = 202,
      json_result = Inr (JObj [(''id'', JStr []), (''taskId'', JStr ''task789''),
                               (''message'', JStr [])]),
      text_result = Inr []\<rparr> =
   Inr (JObj [(''accountId'', JStr ''acc123''), (''enabled'', JBool True),
              (''taskId'', JStr ''task789''),
              (''message'', JStr ''Account enable operation initiated''),
              (''enabledAt'', JStr ''2026-01-01T00:00:00.000Z'')]) \<and>
   spec_taskId [(''id'', JStr []), (''taskId'', JStr ''task789''), (''message'', JStr [])] =
     JStr [] \<and>
   spec_message [(''id'', JStr []), (''taskId'', JStr ''task789''), (''message'', JStr [])] =
     JStr []"
  by code_simp

section \<open>Facts about the handler \<open>error\<close>\<close>

text \<open>
  C10. In the bundle and in the variant that takes a base address, the handler
  \<open>error\<close> throws the error it was given, unchanged, for every input: it never
  returns a result, and it leaves the record of effects as it found it, so that it makes
  no wait and sends no request.
\<close>

theorem error_utils_rethrows:
  "error_utils params context net tr = (Inl (Thrown (field params ''error'')), tr) \<and>
   fst (error_utils params context net tr) \<noteq> Inr result \<and>
   snd (error_utils params context net tr) = tr"
  by (simp add: error_utils_def)

theorem error_utils_rethrows_witness:
  "error_utils [(''accountId'', JStr ''acc123''),
                (''error'', JObj [(''message'', JStr ''HTTP 429''), (''statusCode'', JNum 429)])]
     [] (\<lambda>n. Inl TypeError) [] =
   (Inl (Thrown (JObj [(''message'', JStr ''HTTP 429''), (''statusCode'', JNum 429)])), [])"
  using error_utils_rethrows [of "[(''accountId'', JStr ''acc123''),
                (''error'', JObj [(''message'', JStr ''HTTP 429''), (''statusCode'', JNum 429)])]"
      "[]" "\<lambda>n. Inl TypeError" "[]" JNull]
  by (simp add: field_def)

text \<open>
  C3. For every error whose status code is 400, 401, 403 or 404 and whose message
  contains neither \<open>429\<close> nor \<open>rate limit\<close>, the handler \<open>error\<close> of the variant that
  retries throws at once the error \<open>Unrecoverable error enabling account\<close>, followed by
  the account identifier, a colon and the message of the error it was given; the
  record of effects is unchanged, so that no wait is made and no request is sent.
\<close>

theorem fatal_status_raises_immediately:
  assumes "field params ''error'' = JObj e"
    and "field e ''statusCode'' = JNum s"
    and "s \<in> {400, 401, 403, 404}"
    and "field e ''message'' = JStr m"
    and "\<not> str_includes m ''429''"
    and "\<not> str_includes m ''rate limit''"
  shows "error_domain origin_of params context now net tr =
           (Inl (Thrown (js_Error (''Unrecoverable error enabling account '' @
                   js_toString (field params ''accountId'') @ '': '' @ m))), tr)"
proof -
  have sc: "s \<noteq> 429" "s \<noteq> 502" "s \<noteq> 503" "s \<noteq> 504"
    using assms(3) by auto
  have rl: "rate_limited (JNum s) (JStr m) = Inr False"
    using sc assms(5,6) by (simp add: rate_limited_def and_then_def)
  have sv: "\<not> service_unavailable (JNum s)"
    using sc by (simp add: service_unavailable_def)
  show ?thesis
    using assms(1,2,4) rl sv
    by (simp add: error_domain_def Let_def unrecoverable_def)
qed

theorem fatal_status_raises_immediately_witness:
  "error_domain Inr
     [(''accountId'', JStr ''acc123''),
      (''error'', JObj [(''message'', JStr ''Authentication failed''), (''statusCode'', JNum 401)])]
     [(''secrets'', JObj []), (''environment'', JObj [])] ''2026-01-01T00:00:00.000Z''
     (\<lambda>n. Inl TypeError) [] =
   (Inl (Thrown (JObj [(''message'',
      JStr ''Unrecoverable error enabling account acc123: Authentication failed'')])), [])"
proof -
  let ?e = "[(''message'', JStr ''Authentication failed''), (''statusCode'', JNum 401)]"
  let ?p = "[(''accountId'', JStr ''acc123''), (''error'', JObj ?e)]"
  have 1: "field ?p ''error'' = JObj ?e" by (simp add: field_def)
  have 2: "field ?e ''statusCode'' = JNum 401" by (simp add: field_def)
  have 3: "(401::int) \<in> {400, 401, 403, 404}" by simp
  have 4: "field ?e ''message'' = JStr ''Authentication failed''" by (simp add: field_def)
  have 5: "\<not> str_includes ''Authentication failed'' ''429''" by code_simp
  have 6: "\<not> str_includes ''Authentication failed'' ''rate limit''" by code_simp
  show ?thesis
    using fatal_status_raises_immediately [OF 1 2 3 4 5 6, of Inr
        "[(''secrets'', JObj []), (''environment'', JObj [])]" "''2026-01-01T00:00:00.000Z''"
        "\<lambda>n. Inl TypeError" "[]"]
    by (simp add: js_Error_def field_def)
qed








text \<open>
  An error without a message whose status code is not 429: the test of the message
  raises a \<open>TypeError\<close>, whatever the status code, and nothing is done.
\<close>

lemma error_domain_no_message:
  assumes "field params ''error'' = JObj e" and "field e ''message'' = JUndefined"
    and "field e ''statusCode'' \<noteq> JNum 429"
  shows "error_domain origin_of params context now net tr = (Inl TypeError, tr)"
  using assms by (simp add: error_domain_def Let_def rate_limited_def and_then_def)

subsection \<open>The number of requests of one recovery\<close>

lemma fetches_append [simp]: "fetches (tr @ tr') = fetches tr + fetches tr'"
  by (simp add: fetches_def)

lemma fetches_single [simp]:
  "fetches [Fetch r] = 1" "fetches [Timeout t] = 0" "fetches [] = 0"
  by (simp_all add: fetches_def)

lemma enableAccount_domain_fetches:
  "enableAccount_domain origin_of a d t ev fp net tr = (x, tr') \<Longrightarrow>
     fetches tr' \<le> fetches tr + 1"
  by (auto simp: enableAccount_domain_def fetch_def split: sum.splits)

lemma retry_fetches:
  "retry origin_of params context ms dm rm now net tr = (x, tr') \<Longrightarrow>
     fetches tr' \<le> fetches tr + 1"
  by (auto simp: retry_def Let_def split: sum.splits prod.splits if_splits
      dest!: enableAccount_domain_fetches)

lemma error_domain_fetches:
  "error_domain origin_of params context now net tr = (x, tr') \<Longrightarrow>
     fetches tr' \<le> fetches tr + 2"
  by (auto simp: error_domain_def Let_def split: sum.splits prod.splits option.splits if_splits
      dest!: retry_fetches)

lemma error_domain_single_retry:
  assumes "error_domain origin_of params context now net tr = (x, tr')"
    and "rate_limited (get_prop_opt (field params ''error'') ''statusCode'')
           (get_prop_opt (field params ''error'') ''message'') \<noteq> Inr True \<or>
         \<not> service_unavailable (get_prop_opt (field params ''error'') ''statusCode'')"
  shows "fetches tr' \<le> fetches tr + 1"
  using assms
  by (auto simp: error_domain_def Let_def
      split: sum.splits prod.splits option.splits if_splits
      dest!: retry_fetches get_prop_Inr)

text \<open>
  C1. When the retried request fails too, the handler raises
  \<open>Unrecoverable error enabling account {accountId}: {message}\<close>, and it should have
  sent one request only. The two retry blocks follow one another, and a failed retry
  leaves the first without a \<open>return\<close>. \<open>invoke\<close> turns a response with the status
  503, a detail code and a tracking identifier that contains \<open>429\<close> into an error whose
  message contains \<open>429\<close>; for that error the handler waits for the rate limit
  backoff, sends the request, waits for the service error backoff and sends the
  request a second time before it raises. With the request that failed first, this
  is the third.
\<close>

theorem error_domain_second_retry:
  "invoke_response (JStr ''acc123'') [] ''2026-01-01T00:00:00.000Z''
     \<lparr>ok = False, status = 503,
      json_result = Inr (JObj [(''detailCode'', JStr ''503.0 Service Unavailable''),
                               (''trackingId'', JStr ''8c1f429a07'')]),
      text_result = Inl TypeError\<rparr> =
   Inl (Thrown (JObj [(''message'',
                       JStr ''Failed to enable account: 503.0 Service Unavailable - 8c1f429a07''),
                      (''statusCode'', JNum 503)])) \<and>
   error_domain Inr
     [(''accountId'', JStr ''acc123''),
      (''sailpointDomain'', JStr ''example.api.identitynow.com''),
      (''error'', JObj [(''message'',
                         JStr ''Failed to enable account: 503.0 Service Unavailable - 8c1f429a07''),
                        (''statusCode'', JNum 503)])]
     [(''secrets'', JObj [(''BEARER_AUTH_TOKEN'', JStr ''test-token'')]),
      (''environment'', JObj [])]
     ''2026-01-01T00:00:00.000Z''
     (\<lambda>n. Inr \<lparr>ok = False, status = 503,
                   json_result = Inr (JObj [(''detailCode'', JStr ''503.0 Service Unavailable''),
                                            (''trackingId'', JStr ''8c1f429a07'')]),
                   text_result = Inl TypeError\<rparr>) [] =
   (Inl (Thrown (JObj [(''message'',
      JStr ''Unrecoverable error enabling account acc123: Failed to enable account: 503.0 Service Unavailable - 8c1f429a07'')])),
    [Timeout (Exact 30000),
     Fetch \<lparr>url = ''https://example.api.identitynow.com/v3/accounts/acc123/enable'',
            httpMethod = ''POST'',
            headers = [(''Authorization'', ''Bearer test-token''),
                       (''Accept'', ''application/json''),
                       (''Content-Type'', ''application/json'')],
            body = JObj []\<rparr>,
     Timeout (Exact 10000),
     Fetch \<lparr>url = ''https://example.api.identitynow.com/v3/accounts/acc123/enable'',
            httpMethod = ''POST'',
            headers = [(''Authorization'', ''Bearer test-token''),
                       (''Accept'', ''application/json''),
                       (''Content-Type'', ''application/json'')],
            body = JObj []\<rparr>])"
  by code_simp

section \<open>Facts about the handler \<open>halt\<close>\<close>

text \<open>
  C9, as amended. For every reason and every account identifier, \<open>halt\<close> returns the
  report that holds the account identifier when that is truthy and \<open>unknown\<close>
  otherwise, the reason as it was given, the time of the clock and
  \<open>cleanupCompleted: true\<close>; it raises nothing and leaves the record of effects as it
  found it, so that it sends no request.
\<close>

theorem halt_report:
  "halt params context now net tr =
     (Inr (JObj [(''accountId'', if truthy (field params ''accountId'')
                                 then field params ''accountId'' else JStr ''unknown''),
                 (''reason'', field params ''reason''),
                 (''haltedAt'', JStr now),
                 (''cleanupCompleted'', JBool True)]), tr)"
  by (simp add: halt_def js_or_def)

theorem halt_report_witness:
  "halt [(''accountId'', JStr ''acc123''), (''reason'', JStr ''user_requested'')] []
     ''2026-01-01T00:00:00.000Z'' (\<lambda>n. Inl TypeError) [] =
   (Inr (JObj [(''accountId'', JStr ''acc123''), (''reason'', JStr ''user_requested''),
               (''haltedAt'', JStr ''2026-01-01T00:00:00.000Z''),
               (''cleanupCompleted'', JBool True)]), []) \<and>
   halt [(''reason'', JStr ''timeout'')] [] ''2026-01-01T00:00:00.000Z'' (\<lambda>n. Inl TypeError) [] =
   (Inr (JObj [(''accountId'', JStr ''unknown''), (''reason'', JStr ''timeout''),
               (''haltedAt'', JStr ''2026-01-01T00:00:00.000Z''),
               (''cleanupCompleted'', JBool True)]), [])"
  using halt_report [of "[(''accountId'', JStr ''acc123''), (''reason'', JStr ''user_requested'')]"
      "[]" "''2026-01-01T00:00:00.000Z''" "\<lambda>n. Inl TypeError" "[]"]
    halt_report [of "[(''reason'', JStr ''timeout'')]"
      "[]" "''2026-01-01T00:00:00.000Z''" "\<lambda>n. Inl TypeError" "[]"]
  by (simp add: field_def)

text \<open>
  The claim as the specification words it fails where the account identifier supplied
  is the empty string: the report says \<open>unknown\<close>.
\<close>

theorem halt_report_counterexample:
  "halt [(''reason'', JStr ''timeout''), (''accountId'', JStr [])] []
     ''2026-01-01T00:00:00.000Z'' (\<lambda>n. Inl TypeError) [] =
   (Inr (JObj [(''accountId'', JStr ''unknown''), (''reason'', JStr ''timeout''),
               (''haltedAt'', JStr ''2026-01-01T00:00:00.000Z''),
               (''cleanupCompleted'', JBool True)]), []) \<and>
   spec_halt_accountId [(''reason'', JStr ''timeout''), (''accountId'', JStr [])] = JStr []"
  by code_simp

end
